theory Spec2Isabelle
  imports Complex_Main
begin

section \<open>Video transcription queue: data model\<close>

text \<open>
  The development follows the Python sources \<^verbatim>\<open>models.py\<close>, \<^verbatim>\<open>transcription.py\<close>,
  \<^verbatim>\<open>worker.py\<close> and \<^verbatim>\<open>app.py\<close>.

  Conventions of the embedding:
  \<^item> Python \<^verbatim>\<open>str\<close> is \<^typ>\<open>string\<close>, one \<^typ>\<open>char\<close> per character (characters with code
    below 256); file contents are text, not encoded bytes.
  \<^item> Python \<^verbatim>\<open>float\<close> is \<^typ>\<open>rat\<close>: arithmetic is exact, so binary rounding error is not
    part of the model. The concrete inputs evaluated below are dyadic rationals on which
    every float operation of the source is exact.
  \<^item> An exception is a value \<open>Exn cls msg\<close>; a function that may raise returns
    \<open>exn + 'a\<close> with \<open>Inl\<close> for the raised exception. All classes listed derive from
    Python's \<^verbatim>\<open>Exception\<close>, so \<^verbatim>\<open>except Exception\<close> catches every \<open>Inl\<close>.
  \<^item> What the host answers (the \<^verbatim>\<open>ffprobe\<close>/\<^verbatim>\<open>ffmpeg\<close> subprocesses, the transcription
    service, opening files) is read from an environment record.
\<close>

datatype exn_class =
    FileNotFoundError | CalledProcessError | RuntimeError | UnicodeDecodeError
  | ValueError | TypeError | OSError | OpenAIError | OtherException

datatype exn = Exn exn_class string

fun exn_cls :: "exn \<Rightarrow> exn_class" where
  "exn_cls (Exn c m) = c"

text \<open>\<^verbatim>\<open>str(exc)\<close>\<close>

fun str_exn :: "exn \<Rightarrow> string" where
  "str_exn (Exn c m) = m"

datatype status = Pending | Processing | Done | Failed

record segment =
  seg_start :: rat
  seg_end :: rat
  seg_text :: string

text \<open>
  \<^verbatim>\<open>models.Video\<close>. \<open>segments_json\<close> holds the segment list that the stored JSON text
  encodes; \<open>created_at\<close> and \<open>processed_at\<close> are clock readings.
\<close>

record video =
  vid :: nat
  filename :: string
  filepath :: string
  folder :: string
  duration_seconds :: "rat option"
  status :: status
  error_message :: "string option"
  transcript_text :: "string option"
  transcript_preview :: "string option"
  segments_json :: "segment list option"
  txt_path :: "string option"
  srt_path :: "string option"
  created_at :: nat
  processed_at :: "nat option"

text \<open>
  The part of the host the code touches: the temporary audio files made by
  \<^verbatim>\<open>tempfile.mkstemp\<close> (named by a serial number), the text files under the output
  directory, and the clock read by \<^verbatim>\<open>datetime.now\<close>.
\<close>

record world =
  tmp_files :: "nat list"
  next_tmp :: nat
  out_files :: "string \<Rightarrow> string option"
  clock :: nat

text \<open>
  What \<^verbatim>\<open>subprocess.run(..., check=True, capture_output=True)\<close> does: it returns with exit
  status 0, raises \<^verbatim>\<open>FileNotFoundError\<close> (no such executable), raises
  \<^verbatim>\<open>CalledProcessError\<close> (nonzero exit status) or raises something else. For a nonzero
  exit the second field is what \<^verbatim>\<open>exc.stderr.decode()\<close> gives: the text, or the
  \<^verbatim>\<open>UnicodeDecodeError\<close> it raises when the bytes are not valid UTF-8.
\<close>

datatype run_outcome =
    Completed string
  | NotFound string
  | NonZero string "exn + string"
  | RunRaised exn

section \<open>Text helpers\<close>

text \<open>Characters removed by \<^verbatim>\<open>str.strip()\<close>: those for which \<^verbatim>\<open>str.isspace\<close> holds.\<close>

definition is_space :: "char \<Rightarrow> bool" where
  "is_space c = (of_char c \<in> {9, 10, 11, 12, 13, 28, 29, 30, 31, 32, 133, 160 :: nat})"

definition strip :: "string \<Rightarrow> string" where
  "strip s = rev (dropWhile is_space (rev (dropWhile is_space s)))"

text \<open>\<^verbatim>\<open>sep.join(xs)\<close>\<close>

fun join :: "string \<Rightarrow> string list \<Rightarrow> string" where
  "join sep [] = []"
| "join sep [x] = x"
| "join sep (x # y # ys) = x @ sep @ join sep (y # ys)"

text \<open>\<^verbatim>\<open>str(n)\<close> for a natural number: its decimal digits.\<close>

fun str_nat :: "nat \<Rightarrow> string" where
  "str_nat n = (if n < 10 then [char_of (48 + n)]
                else str_nat (n div 10) @ [char_of (48 + n mod 10)])"

declare str_nat.simps [simp del]

text \<open>
  \<^verbatim>\<open>f"{i:0Wd}"\<close>: sign, then the digits padded with zeros to a minimum total width \<open>W\<close>;
  a number with more digits is printed in full.
\<close>

definition format_d :: "nat \<Rightarrow> int \<Rightarrow> string" where
  "format_d w i =
     (if i < 0
      then CHR ''-'' # replicate (w - 1 - length (str_nat (nat (- i)))) CHR ''0'' @ str_nat (nat (- i))
      else replicate (w - length (str_nat (nat i))) CHR ''0'' @ str_nat (nat i))"

section \<open>Float operations used by the codec\<close>

text \<open>\<^verbatim>\<open>x // y\<close> and \<^verbatim>\<open>x % y\<close> for a positive divisor, \<^verbatim>\<open>int(x)\<close>, \<^verbatim>\<open>round(x)\<close>.\<close>

definition py_floordiv :: "rat \<Rightarrow> rat \<Rightarrow> rat" where
  "py_floordiv x y = of_int \<lfloor>x / y\<rfloor>"

definition py_mod :: "rat \<Rightarrow> rat \<Rightarrow> rat" where
  "py_mod x y = x - y * of_int \<lfloor>x / y\<rfloor>"

definition py_int :: "rat \<Rightarrow> int" where
  "py_int x = (if 0 \<le> x then \<lfloor>x\<rfloor> else \<lceil>x\<rceil>)"

text \<open>\<^verbatim>\<open>round\<close> rounds to the nearest integer, a tie to the even neighbour.\<close>

definition py_round :: "rat \<Rightarrow> int" where
  "py_round x =
     (let f = \<lfloor>x\<rfloor>; d = x - of_int f
      in if d < 1 / 2 then f
         else if 1 / 2 < d then f + 1
         else if even f then f else f + 1)"

section \<open>Transcript codec (\<^verbatim>\<open>transcription.py\<close>)\<close>

definition format_srt_time :: "rat \<Rightarrow> string" where
  "format_srt_time seconds =
     (let hrs = py_int (py_floordiv seconds 3600);
          mins = py_int (py_floordiv (py_mod seconds 3600) 60);
          secs = py_int (py_mod seconds 60);
          millis = py_round ((seconds - of_int (py_int seconds)) * 1000)
      in format_d 2 hrs @ '':'' @ format_d 2 mins @ '':'' @ format_d 2 secs @ '','' @ format_d 3 millis)"

definition segments_to_text :: "segment list \<Rightarrow> string" where
  "segments_to_text segments = join ''\<newline>'' (map (\<lambda>seg. strip (seg_text seg)) segments)"

text \<open>
  The \<^verbatim>\<open>for\<close> loops of \<^verbatim>\<open>write_txt\<close> and \<^verbatim>\<open>write_srt\<close>: \<open>f\<close> is what has been written to
  the open file so far, \<open>i\<close> the counter of \<^verbatim>\<open>enumerate(segments, start=1)\<close>.
\<close>

fun write_txt_loop :: "string \<Rightarrow> segment list \<Rightarrow> string" where
  "write_txt_loop f [] = f"
| "write_txt_loop f (seg # segments) =
     write_txt_loop (f @ strip (seg_text seg) @ ''\<newline>'') segments"

fun write_srt_loop :: "string \<Rightarrow> nat \<Rightarrow> segment list \<Rightarrow> string" where
  "write_srt_loop f i [] = f"
| "write_srt_loop f i (seg # segments) =
     (let start = format_srt_time (seg_start seg);
          end' = format_srt_time (seg_end seg);
          text = strip (seg_text seg)
      in write_srt_loop
           (f @ str_nat i @ ''\<newline>'' @ start @ '' --> '' @ end' @ ''\<newline>'' @ text
              @ ''\<newline>\<newline>'')
           (Suc i) segments)"

text \<open>
  \<^verbatim>\<open>open(output_path, "w")\<close> either raises (\<open>opened = Some exc\<close>, nothing is written) or
  truncates the file; the loop then fills it.
\<close>

definition write_txt :: "exn option \<Rightarrow> world \<Rightarrow> segment list \<Rightarrow> string \<Rightarrow> world \<times> (exn + unit)" where
  "write_txt opened w segments output_path =
     (case opened of
        Some exc \<Rightarrow> (w, Inl exc)
      | None \<Rightarrow>
          (w\<lparr>out_files := (out_files w)(output_path \<mapsto> write_txt_loop [] segments)\<rparr>, Inr ()))"

definition write_srt :: "exn option \<Rightarrow> world \<Rightarrow> segment list \<Rightarrow> string \<Rightarrow> world \<times> (exn + unit)" where
  "write_srt opened w segments output_path =
     (case opened of
        Some exc \<Rightarrow> (w, Inl exc)
      | None \<Rightarrow>
          (w\<lparr>out_files := (out_files w)(output_path \<mapsto> write_srt_loop [] 1 segments)\<rparr>, Inr ()))"

section \<open>Path helpers\<close>

text \<open>\<^verbatim>\<open>os.path.join(a, b)\<close> and the first component of \<^verbatim>\<open>os.path.splitext(p)\<close> (POSIX).\<close>

definition path_join :: "string \<Rightarrow> string \<Rightarrow> string" where
  "path_join a b =
     (if b \<noteq> [] \<and> hd b = CHR ''/'' then b
      else if a = [] \<or> last a = CHR ''/'' then a @ b
      else a @ ''/'' @ b)"

definition splitext_root :: "string \<Rightarrow> string" where
  "splitext_root p =
     (let name = rev (takeWhile (\<lambda>c. c \<noteq> CHR ''/'') (rev p));
          dir = take (length p - length name) p;
          stem = rev (drop 1 (dropWhile (\<lambda>c. c \<noteq> CHR ''.'') (rev name)))
      in if CHR ''.'' \<in> set name \<and> (\<exists>c \<in> set stem. c \<noteq> CHR ''.'') then dir @ stem else p)"

section \<open>Host operations (\<^verbatim>\<open>transcription.py\<close>)\<close>

text \<open>\<^verbatim>\<open>fd, audio_path = tempfile.mkstemp(suffix=".mp3"); os.close(fd)\<close>\<close>

definition mkstemp :: "world \<Rightarrow> world \<times> nat" where
  "mkstemp w = (w\<lparr>tmp_files := next_tmp w # tmp_files w, next_tmp := Suc (next_tmp w)\<rparr>, next_tmp w)"

text \<open>\<^verbatim>\<open>os.unlink(audio_path)\<close> and \<^verbatim>\<open>os.path.exists(audio_path)\<close>\<close>

definition unlink :: "world \<Rightarrow> nat \<Rightarrow> world" where
  "unlink w audio_path = w\<lparr>tmp_files := removeAll audio_path (tmp_files w)\<rparr>"

definition tmp_exists :: "world \<Rightarrow> nat \<Rightarrow> bool" where
  "tmp_exists w audio_path = (audio_path \<in> set (tmp_files w))"

text \<open>
  \<^verbatim>\<open>get_video_duration\<close>: the body of the \<^verbatim>\<open>try\<close>, then the function with its
  \<^verbatim>\<open>except Exception: return None\<close>. \<open>pyfloat\<close> is Python's \<^verbatim>\<open>float(str)\<close>, which
  raises \<^verbatim>\<open>ValueError\<close> on text that is no number; \<open>probe\<close> is what running
  \<^verbatim>\<open>ffprobe\<close> on the path does.
\<close>

definition get_video_duration_try :: "(string \<Rightarrow> exn + rat) \<Rightarrow> run_outcome \<Rightarrow> exn + rat" where
  "get_video_duration_try pyfloat probe =
     (case probe of
        Completed stdout \<Rightarrow> pyfloat (strip stdout)
      | NotFound m \<Rightarrow> Inl (Exn FileNotFoundError m)
      | NonZero m err \<Rightarrow> Inl (Exn CalledProcessError m)
      | RunRaised exc \<Rightarrow> Inl exc)"

definition get_video_duration :: "(string \<Rightarrow> exn + rat) \<Rightarrow> run_outcome \<Rightarrow> exn + rat option" where
  "get_video_duration pyfloat probe =
     (case get_video_duration_try pyfloat probe of
        Inr d \<Rightarrow> Inr (Some d)
      | Inl exc \<Rightarrow> Inr None)"

text \<open>
  \<^verbatim>\<open>extract_audio\<close>: \<open>run\<close> is what running \<^verbatim>\<open>ffmpeg\<close> does. On exit status 0 the
  temporary file holds the audio and its name is returned. The two \<^verbatim>\<open>except\<close> clauses
  unlink the file first and then build the \<^verbatim>\<open>RuntimeError\<close>; any other exception
  leaves the function as it is, past both clauses.
\<close>

definition extract_audio :: "world \<Rightarrow> run_outcome \<Rightarrow> world \<times> (exn + nat)" where
  "extract_audio w run =
     (case mkstemp w of (w1, audio_path) \<Rightarrow>
        (case run of
           Completed stdout \<Rightarrow> (w1, Inr audio_path)
         | NotFound m \<Rightarrow>
             (unlink w1 audio_path,
              Inl (Exn RuntimeError ''FFmpeg not found. Install it and ensure it is on your PATH.''))
         | NonZero m err \<Rightarrow>
             (unlink w1 audio_path,
              (case err of
                 Inl exc \<Rightarrow> Inl exc
               | Inr text \<Rightarrow> Inl (Exn RuntimeError (''Error extracting audio: '' @ text))))
         | RunRaised exc \<Rightarrow> (w1, Inl exc)))"

text \<open>
  \<^verbatim>\<open>transcribe_audio\<close>: \<^verbatim>\<open>OpenAI()\<close> raises \<^verbatim>\<open>OpenAIError\<close> when no API key is
  configured; \<^verbatim>\<open>open(audio_path, "rb")\<close> raises when the file is missing; otherwise the
  result is the service's: an exception, or \<^verbatim>\<open>response.segments\<close> (which may be
  \<^verbatim>\<open>None\<close>).
\<close>

definition transcribe_audio ::
    "string option \<Rightarrow> world \<Rightarrow> nat \<Rightarrow> (exn + segment list option) \<Rightarrow> exn + segment list option" where
  "transcribe_audio key w audio_path response =
     (case key of
        None \<Rightarrow>
          Inl (Exn OpenAIError
            ''The api_key client option must be set either by passing api_key to the client or by setting the OPENAI_API_KEY environment variable'')
      | Some k \<Rightarrow>
          if tmp_exists w audio_path then response
          else Inl (Exn FileNotFoundError ''[Errno 2] No such file or directory''))"

section \<open>The worker (\<^verbatim>\<open>worker.py\<close>)\<close>

text \<open>
  The environment: the configured API key, the application's root directory, and what
  the host answers for a given video path (\<open>ffprobe\<close>, \<open>ffmpeg\<close>, \<open>whisper\<close>: the
  service's answer for that video's audio) or output path (\<open>open_w\<close>).
\<close>

record env =
  api_key :: "string option"
  root_path :: string
  pyfloat :: "string \<Rightarrow> exn + rat"
  ffprobe :: "string \<Rightarrow> run_outcome"
  ffmpeg :: "string \<Rightarrow> run_outcome"
  whisper :: "string \<Rightarrow> exn + segment list option"
  makedirs :: "exn option"
  open_w :: "string \<Rightarrow> exn option"

text \<open>
  What the \<^verbatim>\<open>try\<close> block of one loop iteration leaves behind: the host, the in-memory
  \<^verbatim>\<open>video\<close> object, the versions of the record written by \<^verbatim>\<open>db.session.commit()\<close> inside
  the block (oldest first), the variable \<^verbatim>\<open>audio_path\<close>, and the exception raised, if
  any.
\<close>

record attempt =
  a_world :: world
  a_video :: video
  a_commits :: "video list"
  a_audio :: "nat option"
  a_raised :: "exn option"

definition out_exists :: "world \<Rightarrow> string \<Rightarrow> bool" where
  "out_exists w p = (out_files w p \<noteq> None)"

text \<open>Lines 42--44: probe the duration when it is missing, and commit.\<close>

definition try_duration :: "env \<Rightarrow> video \<Rightarrow> exn + video \<times> video list" where
  "try_duration e video =
     (if duration_seconds video = None
      then (case get_video_duration (pyfloat e) (ffprobe e (filepath video)) of
              Inl exc \<Rightarrow> Inl exc
            | Inr d \<Rightarrow> Inr (video\<lparr>duration_seconds := d\<rparr>, [video\<lparr>duration_seconds := d\<rparr>]))
      else Inr (video, []))"

text \<open>
  Lines 56--65: the two output paths; when either default name is taken, both get the
  video's id inserted.
\<close>

definition output_paths :: "env \<Rightarrow> world \<Rightarrow> video \<Rightarrow> string \<times> string" where
  "output_paths e w video =
     (let output_dir = path_join (root_path e) ''output'';
          base = splitext_root (filename video);
          txt = path_join output_dir (base @ ''_transcript.txt'');
          srt = path_join output_dir (base @ ''_transcript.srt'')
      in if out_exists w txt \<or> out_exists w srt
         then (path_join output_dir (base @ ''_'' @ str_nat (vid video) @ ''_transcript.txt''),
               path_join output_dir (base @ ''_'' @ str_nat (vid video) @ ''_transcript.srt''))
         else (txt, srt))"

text \<open>Lines 70--78: the assignments to the record on success.\<close>

definition set_outputs :: "video \<Rightarrow> segment list \<Rightarrow> string \<Rightarrow> string \<Rightarrow> nat \<Rightarrow> video" where
  "set_outputs video seg_dicts txt srt now =
     (let full_text = segments_to_text seg_dicts
      in video\<lparr>transcript_text := Some full_text,
               transcript_preview := Some (take 200 full_text),
               segments_json := Some seg_dicts,
               txt_path := Some txt,
               srt_path := Some srt,
               status := Done,
               processed_at := Some now\<rparr>)"

text \<open>Lines 55--79: write both files, then set the output fields and commit once.\<close>

definition try_outputs :: "env \<Rightarrow> world \<Rightarrow> video \<Rightarrow> video list \<Rightarrow> nat \<Rightarrow> segment list \<Rightarrow> attempt" where
  "try_outputs e w video cs audio_path seg_dicts =
     (case makedirs e of
        Some exc \<Rightarrow>
          \<lparr>a_world = w, a_video = video, a_commits = cs, a_audio = Some audio_path, a_raised = Some exc\<rparr>
      | None \<Rightarrow>
          (case output_paths e w video of (txt, srt) \<Rightarrow>
             (case write_txt (open_w e txt) w seg_dicts txt of
                (w1, Inl exc) \<Rightarrow>
                  \<lparr>a_world = w1, a_video = video, a_commits = cs, a_audio = Some audio_path,
                   a_raised = Some exc\<rparr>
              | (w1, Inr u) \<Rightarrow>
                 (case write_srt (open_w e srt) w1 seg_dicts srt of
                    (w2, Inl exc) \<Rightarrow>
                      \<lparr>a_world = w2, a_video = video, a_commits = cs, a_audio = Some audio_path,
                       a_raised = Some exc\<rparr>
                  | (w2, Inr u') \<Rightarrow>
                      \<lparr>a_world = w2,
                       a_video = set_outputs video seg_dicts txt srt (clock w2),
                       a_commits = cs @ [set_outputs video seg_dicts txt srt (clock w2)],
                       a_audio = Some audio_path, a_raised = None\<rparr>))))"

text \<open>Lines 40--79, the whole \<^verbatim>\<open>try\<close> block.\<close>

definition try_block :: "env \<Rightarrow> world \<Rightarrow> video \<Rightarrow> attempt" where
  "try_block e w video0 =
     (case try_duration e video0 of
        Inl exc \<Rightarrow>
          \<lparr>a_world = w, a_video = video0, a_commits = [], a_audio = None, a_raised = Some exc\<rparr>
      | Inr (video, cs) \<Rightarrow>
          (case extract_audio w (ffmpeg e (filepath video)) of
             (w1, Inl exc) \<Rightarrow>
               \<lparr>a_world = w1, a_video = video, a_commits = cs, a_audio = None, a_raised = Some exc\<rparr>
           | (w1, Inr audio_path) \<Rightarrow>
              (case transcribe_audio (api_key e) w1 audio_path (whisper e (filepath video)) of
                 Inl exc \<Rightarrow>
                   \<lparr>a_world = w1, a_video = video, a_commits = cs, a_audio = Some audio_path,
                    a_raised = Some exc\<rparr>
               | Inr None \<Rightarrow>
                   \<lparr>a_world = w1, a_video = video, a_commits = cs, a_audio = Some audio_path,
                    a_raised = Some (Exn TypeError ''NoneType object is not iterable'')\<rparr>
               | Inr (Some segments) \<Rightarrow> try_outputs e w1 video cs audio_path segments)))"

text \<open>
  Lines 39--89 for a claimed video (already marked \<open>Processing\<close>): the \<^verbatim>\<open>try\<close> block,
  the \<^verbatim>\<open>except Exception\<close> clause with its commit, and the \<^verbatim>\<open>finally\<close> clause. The
  result is the host, the in-memory record, and every version of the record committed on
  the way (oldest first).
\<close>

definition run_claimed :: "env \<Rightarrow> world \<Rightarrow> video \<Rightarrow> world \<times> video \<times> video list" where
  "run_claimed e w video1 =
     (let a = try_block e w video1;
          handled =
            (case a_raised a of
               None \<Rightarrow> (a_video a, a_commits a)
             | Some exc \<Rightarrow>
                 (let video' = (a_video a)\<lparr>status := Failed,
                                             error_message := Some (str_exn exc),
                                             processed_at := Some (clock (a_world a))\<rparr>
                  in (video', a_commits a @ [video'])));
          w' = (case a_audio a of
                  None \<Rightarrow> a_world a
                | Some audio_path \<Rightarrow>
                    if tmp_exists (a_world a) audio_path then unlink (a_world a) audio_path
                    else a_world a)
      in (w', fst handled, snd handled))"

text \<open>Lines 36--89: mark the video \<open>Processing\<close>, commit, and run it.\<close>

definition process_one :: "env \<Rightarrow> world \<Rightarrow> video \<Rightarrow> world \<times> video \<times> video list" where
  "process_one e w video =
     (let video1 = video\<lparr>status := Processing\<rparr>
      in case run_claimed e w video1 of (w', video', cs) \<Rightarrow> (w', video', video1 # cs))"

text \<open>The four output fields of a record: none set, or all set.\<close>

definition no_outputs :: "video \<Rightarrow> bool" where
  "no_outputs v =
     (segments_json v = None \<and> transcript_text v = None \<and> txt_path v = None \<and> srt_path v = None)"

definition all_outputs :: "video \<Rightarrow> bool" where
  "all_outputs v =
     (segments_json v \<noteq> None \<and> transcript_text v \<noteq> None \<and> txt_path v \<noteq> None \<and> srt_path v \<noteq> None)"

text \<open>\<open>only_duration v v'\<close>: \<open>v'\<close> is \<open>v\<close> up to the probed duration.\<close>

definition only_duration :: "video \<Rightarrow> video \<Rightarrow> bool" where
  "only_duration v v' = (v' = v\<lparr>duration_seconds := duration_seconds v'\<rparr>)"

section \<open>The job store\<close>

text \<open>
  The table \<^verbatim>\<open>video\<close> of the SQLite database configured in \<^verbatim>\<open>app.py\<close> is the list of
  its rows in insertion order. \<^verbatim>\<open>filter_by\<close> keeps the matching rows, \<^verbatim>\<open>order_by\<close> sorts
  them by the key, rows with equal keys staying in table order, and \<^verbatim>\<open>first()\<close> takes the
  first row or gives \<^verbatim>\<open>None\<close>. A commit writes the record over the row with its primary
  key.
\<close>

definition first :: "'a list \<Rightarrow> 'a option" where
  "first xs = (case xs of [] \<Rightarrow> None | x # ys \<Rightarrow> Some x)"

definition query_pending_oldest :: "video list \<Rightarrow> video option" where
  "query_pending_oldest rows =
     first (sort_key created_at (filter (\<lambda>v. status v = Pending) rows))"

definition save :: "video \<Rightarrow> video list \<Rightarrow> video list" where
  "save video rows = map (\<lambda>r. if vid r = vid video then video else r) rows"

definition get_video :: "video list \<Rightarrow> nat \<Rightarrow> video option" where
  "get_video rows video_id = find (\<lambda>r. vid r = video_id) rows"

text \<open>The integer primary key given to a new row: one more than the largest in the table.\<close>

definition next_id :: "video list \<Rightarrow> nat" where
  "next_id rows = Suc (fold max (map vid rows) 0)"

section \<open>Scheduler state and the worker loop\<close>

text \<open>
  A worker thread is at one of four places: about to run the query at the head of the
  loop (line 27), holding the row the query returned (line 36), inside the iteration
  with the row marked \<open>Processing\<close> (line 39), or past the loop and about to clear the
  flag (line 91).
\<close>

datatype wstate = AtQuery | Claimed video | InTry video | AfterLoop

record state =
  running :: bool
  workers :: "wstate list"
  jobs :: "video list"
  world :: world

text \<open>
  \<^verbatim>\<open>start_processing\<close>: under the lock, return if the flag is set, else set it; then
  start one thread.
\<close>

definition start_processing :: "state \<Rightarrow> state" where
  "start_processing st =
     (if running st then st
      else st\<lparr>running := True, workers := workers st @ [AtQuery]\<rparr>)"

text \<open>One iteration of the \<^verbatim>\<open>while True\<close> loop for the row the query returned.\<close>

definition loop_body :: "env \<Rightarrow> state \<Rightarrow> video \<Rightarrow> state" where
  "loop_body e st video =
     (case process_one e (world st) video of
        (w', video', cs) \<Rightarrow> st\<lparr>jobs := save video' (jobs st), world := w'\<rparr>)"

definition pending_count :: "state \<Rightarrow> nat" where
  "pending_count st = length (filter (\<lambda>v. status v = Pending) (jobs st))"

text \<open>
  \<^verbatim>\<open>_process_videos\<close> run by one thread with nothing else touching the store: the loop,
  then the flag is cleared.
\<close>

function process_videos :: "env \<Rightarrow> state \<Rightarrow> state" where
  "process_videos e st =
     (case query_pending_oldest (jobs st) of
        None \<Rightarrow> st\<lparr>running := False\<rparr>
      | Some video \<Rightarrow> process_videos e (loop_body e st video))"
  by pat_completeness auto

subsection \<open>The query\<close>

lemma first_Some_iff: "first xs = Some x \<longleftrightarrow> (xs \<noteq> [] \<and> x = hd xs)"
  by (cases xs) (auto simp: first_def)

lemma first_None_iff: "first xs = None \<longleftrightarrow> xs = []"
  by (cases xs) (auto simp: first_def)

lemma query_pending_oldest_Cons:
  assumes "query_pending_oldest rows = Some v"
  shows "\<exists>ys. sort_key created_at (filter (\<lambda>r. status r = Pending) rows) = v # ys"
  using assms unfolding query_pending_oldest_def first_def
  by (cases "sort_key created_at (filter (\<lambda>r. status r = Pending) rows)") simp_all

lemma query_pending_oldest_mem:
  assumes "query_pending_oldest rows = Some v"
  shows "v \<in> set rows \<and> status v = Pending"
proof -
  let ?ps = "sort_key created_at (filter (\<lambda>r. status r = Pending) rows)"
  from query_pending_oldest_Cons[OF assms] obtain ys where ps: "?ps = v # ys" ..
  have "v \<in> set (v # ys)" by simp
  then have "v \<in> set ?ps" by (simp only: ps)
  then show ?thesis by simp
qed

lemma query_pending_oldest_None:
  "query_pending_oldest rows = None \<longleftrightarrow> (\<forall>r \<in> set rows. status r \<noteq> Pending)"
proof -
  have "sort_key created_at (filter (\<lambda>r. status r = Pending) rows) = []
        \<longleftrightarrow> filter (\<lambda>r. status r = Pending) rows = []"
    by (metis length_sort length_0_conv)
  then show ?thesis
    by (simp add: query_pending_oldest_def first_None_iff filter_empty_conv)
qed

lemma query_pending_oldest_min:
  assumes "query_pending_oldest rows = Some v" and "r \<in> set rows" and "status r = Pending"
  shows "created_at v \<le> created_at r"
proof -
  let ?ps = "sort_key created_at (filter (\<lambda>r. status r = Pending) rows)"
  from query_pending_oldest_Cons[OF assms(1)] obtain ys where ps: "?ps = v # ys" ..
  have "sorted (map created_at ?ps)" by (rule sorted_sort_key)
  then have s: "sorted (map created_at (v # ys))" by (simp only: ps)
  have "r \<in> set ?ps" using assms(2,3) by simp
  then have "r \<in> set (v # ys)" by (simp only: ps)
  with s show ?thesis by auto
qed

lemma query_pending_oldest_first:
  assumes "query_pending_oldest rows = Some v"
  shows "v = hd (filter (\<lambda>r. status r = Pending \<and> created_at r = created_at v) rows)"
proof -
  let ?ps = "filter (\<lambda>r. status r = Pending) rows"
  from query_pending_oldest_Cons[OF assms] obtain ys where ss: "sort_key created_at ?ps = v # ys" ..
  have "filter (\<lambda>y. created_at y = created_at v) (sort_key created_at ?ps)
        = filter (\<lambda>y. created_at y = created_at v) ?ps"
    by (rule sort_key_stable)
  then have "filter (\<lambda>y. created_at y = created_at v) (v # ys)
        = filter (\<lambda>y. created_at y = created_at v) ?ps"
    by (simp only: ss)
  then have "hd (filter (\<lambda>y. created_at y = created_at v) ?ps) = v"
    by (metis (mono_tags, lifting) filter.simps(2) list.sel(1))
  moreover have "filter (\<lambda>y. created_at y = created_at v) ?ps
     = filter (\<lambda>r. status r = Pending \<and> created_at r = created_at v) rows"
    by (simp add: conj_commute)
  ultimately show ?thesis by simp
qed

lemma hd_filter_least_vid:
  assumes "sorted_wrt (<) (map vid rows)" and "r \<in> set rows" and "P r"
  shows "vid (hd (filter P rows)) \<le> vid r"
  using assms by (induction rows) auto

lemma save_pending_less:
  assumes "v \<in> set rows" and "status v = Pending" and "vid v' = vid v" and "status v' \<noteq> Pending"
  shows "length (filter (\<lambda>r. status r = Pending) (save v' rows))
         < length (filter (\<lambda>r. status r = Pending) rows)"
proof -
  have le: "length (filter (\<lambda>r. status r = Pending) (save v' xs))
            \<le> length (filter (\<lambda>r. status r = Pending) xs)" for xs
    using assms(4) by (induction xs) (auto simp: save_def)
  from assms(1) show ?thesis
  proof (induction rows)
    case Nil
    then show ?case by simp
  next
    case (Cons x xs)
    show ?case
    proof (cases "x = v")
      case True
      then show ?thesis using le[of xs] assms(2,3,4) by (auto simp: save_def)
    next
      case False
      with Cons have "length (filter (\<lambda>r. status r = Pending) (save v' xs))
         < length (filter (\<lambda>r. status r = Pending) xs)" by auto
      then show ?thesis using assms(4) by (auto simp: save_def)
    qed
  qed
qed

subsection \<open>One iteration\<close>

lemma only_duration_refl: "only_duration v v"
  by (simp add: only_duration_def)

lemma try_duration_cases:
  "try_duration e v = Inr (v', cs) \<Longrightarrow> only_duration v v' \<and> (cs = [] \<or> cs = [v'])"
  by (auto simp: try_duration_def only_duration_def split: if_splits sum.splits)

lemma try_outputs_cases:
  "(\<exists>exc. a_raised (try_outputs e w v cs p segs) = Some exc
        \<and> a_video (try_outputs e w v cs p segs) = v
        \<and> a_commits (try_outputs e w v cs p segs) = cs)
   \<or> (\<exists>txt srt now. a_raised (try_outputs e w v cs p segs) = None
        \<and> a_video (try_outputs e w v cs p segs) = set_outputs v segs txt srt now
        \<and> a_commits (try_outputs e w v cs p segs) = cs @ [set_outputs v segs txt srt now])"
  by (auto simp: try_outputs_def split: option.splits prod.splits sum.splits)

lemma try_block_cases:
  "\<exists>v1 cs. only_duration v v1 \<and> (cs = [] \<or> cs = [v1]) \<and>
     ((\<exists>exc. a_raised (try_block e w v) = Some exc
        \<and> a_video (try_block e w v) = v1
        \<and> a_commits (try_block e w v) = cs)
      \<or> (\<exists>segs txt srt now. a_raised (try_block e w v) = None
        \<and> a_video (try_block e w v) = set_outputs v1 segs txt srt now
        \<and> a_commits (try_block e w v) = cs @ [set_outputs v1 segs txt srt now]))"
proof (cases "try_duration e v")
  case (Inl exc)
  then show ?thesis
    by (intro exI[of _ v] exI[of _ "[]"]) (simp add: try_block_def only_duration_refl)
next
  case (Inr r)
  obtain v1 cs where r: "r = (v1, cs)" by (cases r)
  from try_duration_cases[OF Inr[unfolded r]]
  have od: "only_duration v v1" and cs: "cs = [] \<or> cs = [v1]" by auto
  show ?thesis
    apply (intro exI[of _ v1] exI[of _ cs] conjI od cs)
    using try_outputs_cases[of e _ v1 cs _ _]
    apply (simp add: try_block_def Inr r split: prod.splits sum.splits option.splits)
    apply blast
    done
qed

lemma only_duration_fields:
  assumes "only_duration v v1"
  shows "vid v1 = vid v" "status v1 = status v" "filepath v1 = filepath v"
    "created_at v1 = created_at v" "no_outputs v1 = no_outputs v"
    "error_message v1 = error_message v" "processed_at v1 = processed_at v"
proof -
  from assms have eq: "v1 = v\<lparr>duration_seconds := duration_seconds v1\<rparr>"
    by (simp add: only_duration_def)
  show "vid v1 = vid v" by (subst eq) simp
  show "status v1 = status v" by (subst eq) simp
  show "filepath v1 = filepath v" by (subst eq) simp
  show "created_at v1 = created_at v" by (subst eq) simp
  show "no_outputs v1 = no_outputs v" by (subst eq) (simp add: no_outputs_def)
  show "error_message v1 = error_message v" by (subst eq) simp
  show "processed_at v1 = processed_at v" by (subst eq) simp
qed

lemma run_claimed_eq:
  "run_claimed e w v =
     (fst (run_claimed e w v), fst (snd (run_claimed e w v)), snd (snd (run_claimed e w v)))"
  by simp

lemma run_claimed_video:
  "fst (snd (run_claimed e w v)) =
     (case a_raised (try_block e w v) of
        None \<Rightarrow> a_video (try_block e w v)
      | Some exc \<Rightarrow> (a_video (try_block e w v))\<lparr>status := Failed,
           error_message := Some (str_exn exc),
           processed_at := Some (clock (a_world (try_block e w v)))\<rparr>)"
  by (simp add: run_claimed_def Let_def split: option.splits)

lemma run_claimed_vid: "vid (fst (snd (run_claimed e w v))) = vid v"
  using try_block_cases[of v e w]
  by (auto simp: run_claimed_video set_outputs_def Let_def only_duration_fields)

lemma run_claimed_status:
  "status (fst (snd (run_claimed e w v))) =
     (if a_raised (try_block e w v) = None then Done else Failed)"
  using try_block_cases[of v e w]
  by (auto simp: run_claimed_video set_outputs_def Let_def)

lemma process_one_eq:
  "process_one e w v =
     (fst (run_claimed e w (v\<lparr>status := Processing\<rparr>)),
      fst (snd (run_claimed e w (v\<lparr>status := Processing\<rparr>))),
      v\<lparr>status := Processing\<rparr> # snd (snd (run_claimed e w (v\<lparr>status := Processing\<rparr>))))"
  by (simp add: process_one_def Let_def split: prod.splits)

lemma process_one_vid: "vid (fst (snd (process_one e w v))) = vid v"
  by (simp add: process_one_eq run_claimed_vid)

lemma process_one_status:
  "status (fst (snd (process_one e w v))) =
     (if a_raised (try_block e w (v\<lparr>status := Processing\<rparr>)) = None then Done else Failed)"
  by (simp add: process_one_eq run_claimed_status)

lemma loop_body_jobs:
  "jobs (loop_body e st v) = save (fst (snd (process_one e (world st) v))) (jobs st)"
  by (simp add: loop_body_def split: prod.splits)

lemma loop_body_decreases:
  assumes "query_pending_oldest (jobs st) = Some v"
  shows "pending_count (loop_body e st v) < pending_count st"
proof -
  from query_pending_oldest_mem[OF assms] have "v \<in> set (jobs st)" "status v = Pending" by auto
  moreover have "status (fst (snd (process_one e (world st) v))) \<noteq> Pending"
    by (simp add: process_one_status)
  ultimately show ?thesis
    unfolding pending_count_def loop_body_jobs
    by (intro save_pending_less[where v = v]) (auto simp: process_one_vid)
qed

termination process_videos
  by (relation "measure (\<lambda>(e, st). pending_count st)") (auto simp: loop_body_decreases)

declare process_videos.simps [simp del]

section \<open>The routes that change the queue (\<^verbatim>\<open>app.py\<close>)\<close>

text \<open>\<^verbatim>\<open>os.path.basename\<close>, and the row built by \<^verbatim>\<open>Video(...)\<close> in \<^verbatim>\<open>scan\<close> and \<^verbatim>\<open>upload\<close>.\<close>

definition basename :: "string \<Rightarrow> string" where
  "basename p = rev (takeWhile (\<lambda>c. c \<noteq> CHR ''/'') (rev p))"

definition new_video :: "nat \<Rightarrow> string \<Rightarrow> string \<Rightarrow> rat option \<Rightarrow> nat \<Rightarrow> video" where
  "new_video i path fld d now =
     \<lparr>vid = i, filename = basename path, filepath = path, folder = fld,
      duration_seconds = d, status = Pending, error_message = None,
      transcript_text = None, transcript_preview = None, segments_json = None,
      txt_path = None, srt_path = None, created_at = now, processed_at = None\<rparr>"

text \<open>
  Lines 64--83 of \<^verbatim>\<open>scan\<close> (lines 121--139 of \<^verbatim>\<open>upload\<close> do the same for the saved
  files): skip a path that already has a row, add a \<open>Pending\<close> row otherwise, and call
  \<^verbatim>\<open>start_processing\<close> when something was added.
\<close>

fun scan_loop :: "env \<Rightarrow> string \<Rightarrow> string list \<Rightarrow> state \<Rightarrow> nat \<Rightarrow> exn + state \<times> nat" where
  "scan_loop e fld [] st added = Inr (st, added)"
| "scan_loop e fld (path # paths) st added =
     (case first (filter (\<lambda>v. filepath v = path) (jobs st)) of
        Some existing \<Rightarrow> scan_loop e fld paths st added
      | None \<Rightarrow>
          (case get_video_duration (pyfloat e) (ffprobe e path) of
             Inl exc \<Rightarrow> Inl exc
           | Inr d \<Rightarrow>
               scan_loop e fld paths
                 (st\<lparr>jobs := jobs st @ [new_video (next_id (jobs st)) path fld d (clock (world st))]\<rparr>)
                 (Suc added)))"

definition scan :: "env \<Rightarrow> string \<Rightarrow> string list \<Rightarrow> state \<Rightarrow> exn + state" where
  "scan e fld paths st =
     (case scan_loop e fld paths st 0 of
        Inl exc \<Rightarrow> Inl exc
      | Inr (st', added) \<Rightarrow> Inr (if added \<noteq> 0 then start_processing st' else st'))"

text \<open>
  \<^verbatim>\<open>retry\<close>: \<open>None\<close> is the 404 of \<^verbatim>\<open>get_or_404\<close>. \<open>reset_failed\<close> is lines 252--254.
\<close>

definition reset_failed :: "video \<Rightarrow> video" where
  "reset_failed video = video\<lparr>status := Pending, error_message := None, processed_at := None\<rparr>"

definition retry :: "state \<Rightarrow> nat \<Rightarrow> state option" where
  "retry st video_id =
     (case get_video (jobs st) video_id of
        None \<Rightarrow> None
      | Some video \<Rightarrow>
          if status video = Failed
          then Some (start_processing (st\<lparr>jobs := save (reset_failed video) (jobs st)\<rparr>))
          else Some st)"

section \<open>Interleaved execution\<close>

text \<open>
  One step of worker thread \<open>i\<close>: the query, the commit that marks the row, the rest of
  the iteration, or clearing the flag under the lock, after which the thread is gone.
\<close>

definition worker_step :: "env \<Rightarrow> nat \<Rightarrow> state \<Rightarrow> state" where
  "worker_step e i st =
     (if length (workers st) \<le> i then st
      else case workers st ! i of
        AtQuery \<Rightarrow>
          (case query_pending_oldest (jobs st) of
             None \<Rightarrow> st\<lparr>workers := (workers st)[i := AfterLoop]\<rparr>
           | Some video \<Rightarrow> st\<lparr>workers := (workers st)[i := Claimed video]\<rparr>)
      | Claimed video \<Rightarrow>
          st\<lparr>jobs := save (video\<lparr>status := Processing\<rparr>) (jobs st),
             workers := (workers st)[i := InTry (video\<lparr>status := Processing\<rparr>)]\<rparr>
      | InTry video \<Rightarrow>
          (case run_claimed e (world st) video of
             (w', video', cs) \<Rightarrow>
               st\<lparr>jobs := save video' (jobs st), world := w',
                  workers := (workers st)[i := AtQuery]\<rparr>)
      | AfterLoop \<Rightarrow>
          st\<lparr>running := False, workers := take i (workers st) @ drop (Suc i) (workers st)\<rparr>)"

text \<open>
  What can happen next: a request calls \<^verbatim>\<open>start_processing\<close>, \<^verbatim>\<open>scan\<close>/\<^verbatim>\<open>upload\<close> or
  \<^verbatim>\<open>retry\<close>, a worker thread takes a step, or the clock advances. A request that ends in
  an error response leaves the state as it was.
\<close>

datatype action = StartProcessing | Scan string "string list" | Retry nat | Worker nat | Tick

definition step :: "env \<Rightarrow> action \<Rightarrow> state \<Rightarrow> state" where
  "step e a st =
     (case a of
        StartProcessing \<Rightarrow> start_processing st
      | Scan fld paths \<Rightarrow> (case scan e fld paths st of Inl exc \<Rightarrow> st | Inr st' \<Rightarrow> st')
      | Retry video_id \<Rightarrow> (case retry st video_id of None \<Rightarrow> st | Some st' \<Rightarrow> st')
      | Worker i \<Rightarrow> worker_step e i st
      | Tick \<Rightarrow> st\<lparr>world := (world st)\<lparr>clock := Suc (clock (world st))\<rparr>\<rparr>)"

text \<open>A run: each step with the environment of its moment.\<close>

fun run :: "(env \<times> action) list \<Rightarrow> state \<Rightarrow> state" where
  "run [] st = st"
| "run ((e, a) # rest) st = run rest (step e a st)"

text \<open>
  The state at process start: flag clear, no worker thread, and a table with distinct
  primary keys in which no row is \<open>Processing\<close>.
\<close>

definition initial :: "state \<Rightarrow> bool" where
  "initial st =
     (\<not> running st \<and> workers st = [] \<and> distinct (map vid (jobs st))
      \<and> list_all (\<lambda>v. status v \<noteq> Processing) (jobs st))"

definition processing_count :: "state \<Rightarrow> nat" where
  "processing_count st = length (filter (\<lambda>v. status v = Processing) (jobs st))"

section \<open>Example inputs\<close>

text \<open>
  A host with no files, two queued videos created at the same clock reading, the
  segments of the specification's example, and an environment in which everything
  works except that \<^verbatim>\<open>ffmpeg\<close> cannot be found when the first video is processed.
\<close>

definition world0 :: world where
  "world0 = \<lparr>tmp_files = [], next_tmp = 0, out_files = (\<lambda>p. None), clock = 7\<rparr>"

definition video_a :: video where
  "video_a = new_video 1 ''/videos/a.mp4'' ''/videos'' None 3"

definition video_b :: video where
  "video_b = new_video 2 ''/videos/b.mp4'' ''/videos'' (Some 60) 3"

definition segs_hello :: "segment list" where
  "segs_hello = [\<lparr>seg_start = 0, seg_end = 1, seg_text = '' Hello ''\<rparr>,
                 \<lparr>seg_start = 1, seg_end = 2, seg_text = ''world''\<rparr>]"

definition env0 :: env where
  "env0 = \<lparr>api_key = Some ''sk-test'', root_path = ''/app'',
           pyfloat = (\<lambda>s. if s = ''12.5'' then Inr (25 / 2)
                          else Inl (Exn ValueError ''could not convert string to float'')),
           ffprobe = (\<lambda>p. Completed ''12.5''),
           ffmpeg = (\<lambda>p. if p = ''/videos/a.mp4'' then NotFound ''No such file or directory''
                          else Completed []),
           whisper = (\<lambda>p. Inr (Some segs_hello)),
           makedirs = None,
           open_w = (\<lambda>p. None)\<rparr>"

definition state0 :: state where
  "state0 = \<lparr>running = True, workers = [], jobs = [video_a, video_b], world = world0\<rparr>"

definition failed_a :: video where
  "failed_a = video_a\<lparr>status := Failed, error_message := Some ''boom'', processed_at := Some 5\<rparr>"

definition state_failed :: state where
  "state_failed = \<lparr>running = False, workers = [], jobs = [failed_a, video_b], world = world0\<rparr>"

section \<open>Transcript codec: results\<close>

lemma write_txt_loop_acc: "write_txt_loop f segs = f @ write_txt_loop [] segs"
proof (induction segs arbitrary: f)
  case Nil
  then show ?case by simp
next
  case (Cons s segs)
  show ?case
    using Cons.IH[of "f @ strip (seg_text s) @ ''\<newline>''"] Cons.IH[of "strip (seg_text s) @ ''\<newline>''"]
    by simp
qed

lemma write_txt_loop_concat:
  "write_txt_loop [] segs = concat (map (\<lambda>seg. strip (seg_text seg) @ ''\<newline>'') segs)"
proof (induction segs)
  case Nil
  then show ?case by simp
next
  case (Cons s segs)
  then show ?case using write_txt_loop_acc[of "strip (seg_text s) @ ''\<newline>''" segs] by simp
qed

lemma join_terminated:
  "xs \<noteq> [] \<Longrightarrow> join sep xs @ sep = concat (map (\<lambda>x. x @ sep) xs)"
  by (induction sep xs rule: join.induct) auto

lemma strip_no_space_ends:
  "strip s = [] \<or> (\<not> is_space (hd (strip s)) \<and> \<not> is_space (last (strip s)))"
proof -
  let ?a = "dropWhile is_space s"
  let ?b = "dropWhile is_space (rev ?a)"
  show ?thesis
  proof (cases "?b = []")
    case True
    then show ?thesis by (simp add: strip_def)
  next
    case False
    then have hb: "\<not> is_space (hd ?b)" by (metis hd_dropWhile)
    have "?a \<noteq> []" using False by (metis dropWhile.simps(1) rev.simps(1))
    then have ha: "\<not> is_space (hd ?a)" by (metis hd_dropWhile)
    have suf: "\<exists>zs. rev ?a = zs @ ?b" by (metis takeWhile_dropWhile_id)
    then obtain zs where zs: "rev ?a = zs @ ?b" ..
    then have "?a = rev ?b @ rev zs" by (metis rev_append rev_rev_ident)
    moreover have "rev ?b \<noteq> []" using False by simp
    ultimately have "hd (rev ?b) = hd ?a" by (metis hd_append2)
    with ha hb False show ?thesis by (simp add: strip_def last_rev hd_rev)
  qed
qed

text \<open>
  The three timestamps the specification lists come out as it says.
\<close>

lemma format_srt_time_examples:
  "format_srt_time 0 = ''00:00:00,000''"
  "format_srt_time (7323 / 2) = ''01:01:01,500''"
  "format_srt_time (7199999 / 1000) = ''01:59:59,999''"
  by code_simp+

text \<open>
  C4 (SRT rendering, three-digit milliseconds under one rounding rule). The code rounds
  the fractional second to milliseconds but does not carry: a fraction of at least
  0.9995 rounds to 1000, which is printed as four digits after the comma, the seconds
  field staying as it was. At 7199.99951171875 seconds (7199 + 2047/2048, exact in
  binary) the timestamp is \<^verbatim>\<open>01:59:59,1000\<close>, neither \<^verbatim>\<open>01:59:59,999\<close> nor
  \<^verbatim>\<open>02:00:00,000\<close>; \<^verbatim>\<open>write_srt\<close> puts it into the file as it is.
\<close>

theorem format_srt_time_millis_overflow:
  "format_srt_time (7199 + 2047 / 2048) = ''01:59:59,1000''
   \<and> write_srt_loop [] 1 [\<lparr>seg_start = 0, seg_end = 7199 + 2047 / 2048, seg_text = ''x''\<rparr>]
       = ''1\<newline>00:00:00,000 --> 01:59:59,1000\<newline>x\<newline>\<newline>''"
  by code_simp

text \<open>
  C5 (plain-text rendering), as the code has it. \<^verbatim>\<open>write_txt\<close> writes, for each segment
  in order, its stripped text followed by a newline, so the file is one
  newline-terminated line per segment with nothing in between. \<^verbatim>\<open>segments_to_text\<close>
  (the stored transcript text) joins the same stripped texts with single newlines: it
  is the file's contents without the final newline. The stripped text has no white
  space at either end.
\<close>

theorem plain_text_rendering:
  "snd (write_txt None w segs p) = Inr ()
   \<and> out_files (fst (write_txt None w segs p)) p
       = Some (concat (map (\<lambda>seg. strip (seg_text seg) @ ''\<newline>'') segs))
   \<and> (if segs = [] then segments_to_text segs = []
       else segments_to_text segs @ ''\<newline>''
            = concat (map (\<lambda>seg. strip (seg_text seg) @ ''\<newline>'') segs))
   \<and> (\<forall>seg \<in> set segs. strip (seg_text seg) = []
         \<or> (\<not> is_space (hd (strip (seg_text seg))) \<and> \<not> is_space (last (strip (seg_text seg)))))"
proof -
  have 1: "snd (write_txt None w segs p) = Inr ()"
    by (simp add: write_txt_def)
  have 2: "out_files (fst (write_txt None w segs p)) p
       = Some (concat (map (\<lambda>seg. strip (seg_text seg) @ ''\<newline>'') segs))"
    by (simp add: write_txt_def write_txt_loop_concat)
  have 3: "segments_to_text segs @ ''\<newline>''
            = concat (map (\<lambda>seg. strip (seg_text seg) @ ''\<newline>'') segs)" if "segs \<noteq> []"
    using that join_terminated[of "map (\<lambda>seg. strip (seg_text seg)) segs" "''\<newline>''"]
    by (simp add: segments_to_text_def comp_def)
  have 4: "segments_to_text [] = []"
    by (simp add: segments_to_text_def)
  show ?thesis
    using 1 2 3 4 strip_no_space_ends by auto
qed

theorem plain_text_rendering_witness:
  "out_files (fst (write_txt None \<lparr>tmp_files = [], next_tmp = 0, out_files = (\<lambda>p. None), clock = 0\<rparr>
       [\<lparr>seg_start = 0, seg_end = 1, seg_text = '' Hello ''\<rparr>,
        \<lparr>seg_start = 1, seg_end = 2, seg_text = ''world''\<rparr>] ''a_transcript.txt'')) ''a_transcript.txt''
     = Some ''Hello\<newline>world\<newline>''
   \<and> segments_to_text
       [\<lparr>seg_start = 0, seg_end = 1, seg_text = '' Hello ''\<rparr>,
        \<lparr>seg_start = 1, seg_end = 2, seg_text = ''world''\<rparr>] @ ''\<newline>''
     = ''Hello\<newline>world\<newline>''"
  using plain_text_rendering[of "\<lparr>tmp_files = [], next_tmp = 0, out_files = (\<lambda>p. None), clock = 0\<rparr>"
      "[\<lparr>seg_start = 0, seg_end = 1, seg_text = '' Hello ''\<rparr>,
        \<lparr>seg_start = 1, seg_end = 2, seg_text = ''world''\<rparr>]" "''a_transcript.txt''"]
  by (simp add: strip_def is_space_def)

theorem segments_to_text_counterexample:
  "segments_to_text
     [\<lparr>seg_start = 0, seg_end = 1, seg_text = '' Hello ''\<rparr>,
      \<lparr>seg_start = 1, seg_end = 2, seg_text = ''world''\<rparr>]
   \<noteq> ''Hello\<newline>world\<newline>''"
  by (simp add: segments_to_text_def strip_def is_space_def)


section \<open>Host operations: results\<close>

lemma get_video_duration_Inr: "\<exists>d. get_video_duration pf probe = Inr d"
  by (simp add: get_video_duration_def split: sum.splits)

lemma try_duration_total: "\<exists>r. try_duration e v = Inr r"
  using get_video_duration_Inr[of "pyfloat e" "ffprobe e (filepath v)"]
  by (auto simp: try_duration_def)

lemma scan_loop_total: "\<exists>r. scan_loop e fld paths st added = Inr r"
proof (induction paths arbitrary: st added)
  case Nil
  then show ?case by simp
next
  case (Cons path paths)
  obtain d where d: "get_video_duration (pyfloat e) (ffprobe e path) = Inr d"
    using get_video_duration_Inr by blast
  show ?case
  proof (cases "first (filter (\<lambda>v. filepath v = path) (jobs st))")
    case None
    then show ?thesis using Cons.IH d by simp
  next
    case (Some existing)
    then show ?thesis using Cons.IH by simp
  qed
qed

text \<open>
  C10 (duration probing is total). \<^verbatim>\<open>get_video_duration\<close> never raises: whatever running
  \<^verbatim>\<open>ffprobe\<close> does and whatever \<^verbatim>\<open>float\<close> makes of its output, the result is a value.
  A missing executable, a nonzero exit, any other exception of the subprocess call and
  output that \<^verbatim>\<open>float\<close> rejects all give \<^verbatim>\<open>None\<close>; output that parses gives the number.
  So neither \<^verbatim>\<open>scan\<close> nor the probing step of the worker can fail through it.
\<close>

theorem get_video_duration_total:
  "(\<exists>d. get_video_duration pf probe = Inr d)
   \<and> get_video_duration pf (NotFound m) = Inr None
   \<and> get_video_duration pf (NonZero m err) = Inr None
   \<and> get_video_duration pf (RunRaised exc) = Inr None
   \<and> get_video_duration pf (Completed out)
       = Inr (case pf (strip out) of Inl exc' \<Rightarrow> None | Inr d \<Rightarrow> Some d)
   \<and> (\<exists>st'. scan e fld paths st = Inr st')
   \<and> (\<exists>r. try_duration e v = Inr r)"
proof -
  have "\<exists>st'. scan e fld paths st = Inr st'"
    using scan_loop_total[of e fld paths st 0] by (auto simp: scan_def)
  moreover have "get_video_duration pf (Completed out)
       = Inr (case pf (strip out) of Inl exc' \<Rightarrow> None | Inr d \<Rightarrow> Some d)"
    by (simp add: get_video_duration_def get_video_duration_try_def split: sum.splits)
  moreover have "get_video_duration pf (NotFound m) = Inr None"
    "get_video_duration pf (NonZero m err) = Inr None"
    "get_video_duration pf (RunRaised exc) = Inr None"
    by (simp_all add: get_video_duration_def get_video_duration_try_def)
  ultimately show ?thesis
    using get_video_duration_Inr try_duration_total by blast
qed

text \<open>
  What holds of \<^verbatim>\<open>extract_audio\<close> on its two handled failures: the temporary file it
  made is gone when the exception leaves, a missing executable gives the
  \<^verbatim>\<open>RuntimeError\<close> about FFmpeg, and a nonzero exit whose diagnostic output decodes gives
  the \<^verbatim>\<open>RuntimeError\<close> that carries it.
\<close>

lemma extract_audio_handled_failures:
  "snd (extract_audio w (NotFound m))
     = Inl (Exn RuntimeError ''FFmpeg not found. Install it and ensure it is on your PATH.'')"
  "snd (extract_audio w (NonZero m (Inr text)))
     = Inl (Exn RuntimeError (''Error extracting audio: '' @ text))"
  "snd (mkstemp w) \<notin> set (tmp_files (fst (extract_audio w (NotFound m))))"
  "snd (mkstemp w) \<notin> set (tmp_files (fst (extract_audio w (NonZero m err))))"
  by (simp_all add: extract_audio_def mkstemp_def unlink_def)

text \<open>
  C7 (failure modes of \<^verbatim>\<open>extract_audio\<close>). When \<^verbatim>\<open>ffmpeg\<close> exits with a nonzero status and
  its diagnostic output is not valid UTF-8, \<^verbatim>\<open>exc.stderr.decode()\<close> raises inside the
  \<^verbatim>\<open>except\<close> clause: the temporary file has been removed, but what leaves the function
  is the \<^verbatim>\<open>UnicodeDecodeError\<close>, not a \<^verbatim>\<open>RuntimeError\<close> carrying the output.
\<close>

theorem extract_audio_undecodable_stderr:
  "extract_audio \<lparr>tmp_files = [], next_tmp = 0, out_files = (\<lambda>p. None), clock = 0\<rparr>
     (NonZero ''Command returned non-zero exit status 1.''
        (Inl (Exn UnicodeDecodeError ''invalid start byte'')))
   = (\<lparr>tmp_files = [], next_tmp = 1, out_files = (\<lambda>p. None), clock = 0\<rparr>,
      Inl (Exn UnicodeDecodeError ''invalid start byte''))"
  by (simp add: extract_audio_def mkstemp_def unlink_def)


section \<open>Retry: results\<close>

lemma find_map_stable:
  assumes "\<And>r. P (f r) = P r"
  shows "find P (map f rows) = map_option f (find P rows)"
  using assms by (induction rows) auto

lemma get_video_save:
  "get_video (save v' rows) j
     = map_option (\<lambda>r. if vid r = vid v' then v' else r) (get_video rows j)"
  unfolding get_video_def save_def
  by (rule find_map_stable) simp

lemma get_video_vid: "get_video rows j = Some v \<Longrightarrow> vid v = j \<and> v \<in> set rows"
  unfolding get_video_def by (auto simp: find_Some_iff)

lemma save_keys:
  "vid v' = vid v \<Longrightarrow> v \<in> set rows \<Longrightarrow> map vid (save v' rows) = map vid rows"
  "map vid (save (reset_failed v) rows) = map vid rows"
  "map created_at (save (reset_failed v) rows) = map (\<lambda>r. if vid r = vid v then created_at v else created_at r) rows"
  by (auto simp: save_def reset_failed_def)

lemma start_processing_jobs: "jobs (start_processing st) = jobs st"
  by (simp add: start_processing_def)

text \<open>
  C6 (retry). For a video that exists, \<^verbatim>\<open>retry\<close> answers the request and the row of that
  video afterwards is: for status \<open>Failed\<close>, the old row with status \<open>Pending\<close> and with
  error message and processing time cleared, every other field (duration and creation
  time among them) as before; for any other status, the old row. So the row changes
  exactly when the status was \<open>Failed\<close>. Rows of other videos stay as they were, the
  order of rows in the table is the same, and for a status other than \<open>Failed\<close> the whole
  state is unchanged.
\<close>

theorem retry_semantics:
  assumes "get_video (jobs st) video_id = Some video"
  shows "\<exists>st'. retry st video_id = Some st'
     \<and> get_video (jobs st') video_id
         = Some (if status video = Failed
                 then video\<lparr>status := Pending, error_message := None, processed_at := None\<rparr>
                 else video)
     \<and> (get_video (jobs st') video_id \<noteq> Some video \<longleftrightarrow> status video = Failed)
     \<and> (\<forall>j. j \<noteq> video_id \<longrightarrow> get_video (jobs st') j = get_video (jobs st) j)
     \<and> map vid (jobs st') = map vid (jobs st)
     \<and> (status video \<noteq> Failed \<longrightarrow> st' = st)"
proof (cases "status video = Failed")
  case False
  with assms show ?thesis by (simp add: retry_def)
next
  case True
  let ?st' = "start_processing (st\<lparr>jobs := save (reset_failed video) (jobs st)\<rparr>)"
  from get_video_vid[OF assms] have vid: "vid video = video_id" by simp
  have r: "retry st video_id = Some ?st'"
    using assms True by (simp add: retry_def)
  have j: "jobs ?st' = save (reset_failed video) (jobs st)"
    by (simp add: start_processing_jobs)
  have vr: "vid (reset_failed video) = video_id"
    using vid by (simp add: reset_failed_def)
  have 1: "get_video (jobs ?st') video_id
         = Some (video\<lparr>status := Pending, error_message := None, processed_at := None\<rparr>)"
    using assms vid by (simp add: j get_video_save vr) (simp add: reset_failed_def)
  have 2: "get_video (jobs ?st') k = get_video (jobs st) k" if "k \<noteq> video_id" for k
  proof (cases "get_video (jobs st) k")
    case None
    then show ?thesis by (simp add: j get_video_save)
  next
    case (Some u)
    with get_video_vid[OF Some] that show ?thesis
      by (simp add: j get_video_save vr)
  qed
  have 3: "map vid (jobs ?st') = map vid (jobs st)"
    by (simp add: j save_keys)
  have 4: "video\<lparr>status := Pending, error_message := None, processed_at := None\<rparr> \<noteq> video"
  proof
    assume "video\<lparr>status := Pending, error_message := None, processed_at := None\<rparr> = video"
    then have "status (video\<lparr>status := Pending, error_message := None, processed_at := None\<rparr>)
                = status video" by simp
    with True show False by simp
  qed
  show ?thesis
    using r 1 2 3 4 True by auto
qed

theorem retry_semantics_witness:
  "get_video (jobs state_failed) 1 = Some failed_a
   \<and> (\<exists>st'. retry state_failed 1 = Some st'
         \<and> get_video (jobs st') 1
             = Some (video_a\<lparr>status := Pending, error_message := None, processed_at := None\<rparr>)
         \<and> get_video (jobs st') 2 = Some video_b)"
proof -
  have h: "get_video (jobs state_failed) 1 = Some failed_a"
    by (simp add: state_failed_def get_video_def failed_a_def video_a_def new_video_def)
  have f: "status failed_a = Failed"
    by (simp add: failed_a_def)
  have b: "get_video (jobs state_failed) 2 = Some video_b"
    by (simp add: state_failed_def get_video_def failed_a_def video_a_def video_b_def new_video_def)
  have e: "failed_a\<lparr>status := Pending, error_message := None, processed_at := None\<rparr>
           = video_a\<lparr>status := Pending, error_message := None, processed_at := None\<rparr>"
    by (simp add: failed_a_def)
  from retry_semantics[OF h] obtain st' where
    "retry state_failed 1 = Some st'"
    "get_video (jobs st') 1
       = Some (if status failed_a = Failed
               then failed_a\<lparr>status := Pending, error_message := None, processed_at := None\<rparr>
               else failed_a)"
    "\<forall>j. j \<noteq> 1 \<longrightarrow> get_video (jobs st') j = get_video (jobs state_failed) j"
    by blast
  with h f b e show ?thesis by auto
qed


section \<open>The worker loop: results\<close>

lemma process_videos_None:
  "query_pending_oldest (jobs st) = None \<Longrightarrow> process_videos e st = st\<lparr>running := False\<rparr>"
  by (subst process_videos.simps) simp

lemma process_videos_Some:
  "query_pending_oldest (jobs st) = Some v \<Longrightarrow>
     process_videos e st = process_videos e (loop_body e st v)"
  by (subst process_videos.simps) simp

lemma process_videos_releases: "\<not> running (process_videos e st)"
proof (induction e st rule: process_videos.induct)
  case (1 e st)
  show ?case
  proof (cases "query_pending_oldest (jobs st)")
    case None
    then show ?thesis by (simp add: process_videos_None)
  next
    case (Some v)
    with 1 show ?thesis by (simp add: process_videos_Some)
  qed
qed

text \<open>
  C2 (FIFO claim order). At the head of the loop, when the query finds no \<open>Pending\<close> row
  there is none, and the worker leaves the loop and clears the flag, changing nothing
  else. When it returns a row, that row is in the table and \<open>Pending\<close>, no \<open>Pending\<close> row
  has an earlier creation time, it is the first row in table order among the \<open>Pending\<close>
  rows with that creation time, and, the table being in increasing id order, it has
  the lowest id among them; the loop goes on with the state after that row's
  iteration. However the loop runs, it ends with the flag cleared.
\<close>

theorem fifo_claim_order:
  "(case query_pending_oldest (jobs st) of
      None \<Rightarrow>
        (\<forall>r \<in> set (jobs st). status r \<noteq> Pending)
        \<and> process_videos e st = st\<lparr>running := False\<rparr>
    | Some v \<Rightarrow>
        v \<in> set (jobs st) \<and> status v = Pending
        \<and> (\<forall>r \<in> set (jobs st). status r = Pending \<longrightarrow> created_at v \<le> created_at r)
        \<and> v = hd (filter (\<lambda>r. status r = Pending \<and> created_at r = created_at v) (jobs st))
        \<and> (sorted_wrt (<) (map vid (jobs st)) \<longrightarrow>
             (\<forall>r \<in> set (jobs st). status r = Pending \<and> created_at r = created_at v
                 \<longrightarrow> vid v \<le> vid r))
        \<and> process_videos e st = process_videos e (loop_body e st v))
   \<and> \<not> running (process_videos e st)"
proof (cases "query_pending_oldest (jobs st)")
  case None
  then show ?thesis
    using process_videos_releases[of e st]
    by (simp add: process_videos_None query_pending_oldest_None[symmetric])
next
  case (Some v)
  have low: "vid v \<le> vid r"
    if s: "sorted_wrt (<) (map vid (jobs st))" and r: "r \<in> set (jobs st)"
      and p: "status r = Pending \<and> created_at r = created_at v" for r
  proof -
    have "vid (hd (filter (\<lambda>r. status r = Pending \<and> created_at r = created_at v) (jobs st))) \<le> vid r"
      using s r p by (rule hd_filter_least_vid)
    with query_pending_oldest_first[OF Some] show ?thesis by simp
  qed
  show ?thesis
    using Some query_pending_oldest_mem[OF Some] query_pending_oldest_min[OF Some]
      query_pending_oldest_first[OF Some] low process_videos_Some[OF Some, of e]
      process_videos_releases[of e st]
    by simp
qed

lemma query_state0: "query_pending_oldest (jobs state0) = Some video_a"
  by (simp add: state0_def query_pending_oldest_def first_def video_a_def video_b_def new_video_def)

theorem fifo_claim_order_witness:
  "sorted_wrt (<) (map vid (jobs state0))
   \<and> video_b \<in> set (jobs state0) \<and> status video_b = Pending
   \<and> created_at video_b = created_at video_a
   \<and> query_pending_oldest (jobs state0) = Some video_a
   \<and> vid video_a \<le> vid video_b
   \<and> process_videos env0 state0 = process_videos env0 (loop_body env0 state0 video_a)
   \<and> \<not> running (process_videos env0 state0)"
proof -
  have s: "sorted_wrt (<) (map vid (jobs state0))"
    by (simp add: state0_def video_a_def video_b_def new_video_def)
  have b: "video_b \<in> set (jobs state0)" "status video_b = Pending"
    "created_at video_b = created_at video_a"
    by (simp_all add: state0_def video_a_def video_b_def new_video_def)
  from fifo_claim_order[of state0 env0] s b query_state0 show ?thesis
    by (simp add: process_videos_releases)
qed


end
